theory Spec2Isabelle
  imports Main "HOL-Library.Word"
begin

section \<open>Request/response argument writer and reader of golang/reqres.go\<close>

text \<open>
  The development embeds \<^verbatim>\<open>src/golang/reqres.go\<close>: the writer and reader state machines
  (\<^verbatim>\<open>argWriter\<close>, \<^verbatim>\<open>argReader\<close>, \<^verbatim>\<open>failed\<close>), the fragment codec (\<^verbatim>\<open>newFragment\<close>,
  \<^verbatim>\<open>parseInboundFragment\<close>) and the two transport operations (\<^verbatim>\<open>flushFragment\<close>,
  \<^verbatim>\<open>recvNextFragment\<close>). Go pointers to mutable structs become records that are passed in
  and returned updated. A Go result pair \<^verbatim>\<open>(value, error)\<close> is a pair of options, \<open>None\<close>
  standing for \<^verbatim>\<open>nil\<close>. The writer, the reader and the two kinds of fragment share field
  names in Go (\<^verbatim>\<open>contents\<close>, \<^verbatim>\<open>mex\<close>, \<^verbatim>\<open>state\<close>, \<^verbatim>\<open>err\<close>, \<^verbatim>\<open>frame\<close>); here the fields of the writer
  carry the prefix \<open>w_\<close>, those of the reader \<open>r_\<close>, those of a writable fragment \<open>wf_\<close>
  and those of a readable fragment \<open>rf_\<close>, and the two methods \<^verbatim>\<open>failed\<close> are \<open>w_failed\<close> and
  \<open>r_failed\<close>.
\<close>

subsection \<open>Errors\<close>

text \<open>
  The two sentinel errors declared in reqres.go, the sentinels of the collaborators that the
  file returns (\<^verbatim>\<open>ErrSendBufferFull\<close>, the buffer errors of package typed, the two errors of a
  finished context) and any other error value a collaborator may hand back.
\<close>

datatype error =
    errReqResReaderStateMismatch
  | errReqResWriterStateMismatch
  | ErrSendBufferFull
  | ErrBufferFull
  | ErrEOF
  | ContextCanceled
  | ContextDeadlineExceeded
  | ErrOther string

subsection \<open>Frames\<close>

type_synonym byte = "8 word"

text \<open>
  The frame type is declared outside reqres.go; the file touches the header's correlation id,
  its message type and its payload size (through \<^verbatim>\<open>SetPayloadSize\<close>), and the payload array.
\<close>

record FrameHeader =
  ID :: "32 word"
  hdr_messageType :: byte
  payloadSize :: "16 word"

record Frame =
  Header :: FrameHeader
  Payload :: "byte list"

definition SetPayloadSize :: "16 word \<Rightarrow> Frame \<Rightarrow> Frame" where
  "SetPayloadSize n f = f\<lparr>Header := (Header f)\<lparr>payloadSize := n\<rparr>\<rparr>"

text \<open>\<^verbatim>\<open>SizedPayload\<close>: the payload array cut at the size the header declares.\<close>

definition SizedPayload :: "Frame \<Rightarrow> byte list" where
  "SizedPayload f = take (unat (payloadSize (Header f))) (Payload f)"

subsection \<open>The typed write and read buffers\<close>

text \<open>
  Modelled from the spec: package \<^verbatim>\<open>typed\<close> (\<^verbatim>\<open>WriteBuffer\<close>, \<^verbatim>\<open>ReadBuffer\<close>, \<^verbatim>\<open>ByteRef\<close>,
  \<^verbatim>\<open>BytesRef\<close>) is not part of the sources at hand. The spec describes a write cursor over the
  payload with deferred slots ("reserve N bytes, remember offset, fill later") and a read
  cursor over the sized payload on which a truncated buffer is an error. A write buffer is
  the byte array, the number of bytes written so far and a sticky error; a reference to a
  deferred slot is its offset (and length), \<open>None\<close> being the nil reference.
\<close>

record WriteBuffer =
  buffer :: "byte list"
  pos :: nat
  wb_err :: "error option"

definition NewWriteBuffer :: "byte list \<Rightarrow> WriteBuffer" where
  "NewWriteBuffer bs = \<lparr>buffer = bs, pos = 0, wb_err = None\<rparr>"

definition splice :: "nat \<Rightarrow> 'a list \<Rightarrow> 'a list \<Rightarrow> 'a list" where
  "splice off bs buf = take off buf @ bs @ drop (off + length bs) buf"

definition reserve :: "nat \<Rightarrow> WriteBuffer \<Rightarrow> nat option \<times> WriteBuffer" where
  "reserve n w =
     (if wb_err w \<noteq> None then (None, w)
      else if length (buffer w) - pos w < n then (None, w\<lparr>wb_err := Some ErrBufferFull\<rparr>)
      else (Some (pos w), w\<lparr>pos := pos w + n\<rparr>))"

definition WriteBytes :: "byte list \<Rightarrow> WriteBuffer \<Rightarrow> WriteBuffer" where
  "WriteBytes bs w =
     (case reserve (length bs) w of
        (None, w') \<Rightarrow> w'
      | (Some off, w') \<Rightarrow> w'\<lparr>buffer := splice off bs (buffer w')\<rparr>)"

definition WriteByte :: "byte \<Rightarrow> WriteBuffer \<Rightarrow> WriteBuffer" where
  "WriteByte b w = WriteBytes [b] w"

definition DeferBytes :: "nat \<Rightarrow> WriteBuffer \<Rightarrow> (nat \<times> nat) option \<times> WriteBuffer" where
  "DeferBytes n w =
     (case reserve n w of
        (None, w') \<Rightarrow> (None, w')
      | (Some off, w') \<Rightarrow> (Some (off, n), w'\<lparr>buffer := splice off (replicate n 0) (buffer w')\<rparr>))"

definition DeferByte :: "WriteBuffer \<Rightarrow> nat option \<times> WriteBuffer" where
  "DeferByte w =
     (case DeferBytes 1 w of
        (None, w') \<Rightarrow> (None, w')
      | (Some (off, n), w') \<Rightarrow> (Some off, w'))"

definition BytesWritten :: "WriteBuffer \<Rightarrow> nat" where
  "BytesWritten w = pos w"

definition Err :: "WriteBuffer \<Rightarrow> error option" where
  "Err w = wb_err w"

text \<open>Filling a deferred slot later; the nil reference is left alone.\<close>

definition ByteRef_Update :: "nat option \<Rightarrow> byte \<Rightarrow> WriteBuffer \<Rightarrow> WriteBuffer" where
  "ByteRef_Update ref b w =
     (case ref of None \<Rightarrow> w | Some off \<Rightarrow> w\<lparr>buffer := splice off [b] (buffer w)\<rparr>)"

definition BytesRef_Update :: "(nat \<times> nat) option \<Rightarrow> byte list \<Rightarrow> WriteBuffer \<Rightarrow> WriteBuffer" where
  "BytesRef_Update ref bs w =
     (case ref of
        None \<Rightarrow> w
      | Some (off, n) \<Rightarrow> w\<lparr>buffer := splice off (take n bs) (buffer w)\<rparr>)"

record ReadBuffer =
  remaining :: "byte list"
  rb_err :: "error option"

definition NewReadBuffer :: "byte list \<Rightarrow> ReadBuffer" where
  "NewReadBuffer bs = \<lparr>remaining = bs, rb_err = None\<rparr>"

definition ReadBytes :: "nat \<Rightarrow> ReadBuffer \<Rightarrow> byte list \<times> ReadBuffer" where
  "ReadBytes n r =
     (if rb_err r \<noteq> None then ([], r)
      else if length (remaining r) < n then ([], r\<lparr>rb_err := Some ErrEOF\<rparr>)
      else (take n (remaining r), r\<lparr>remaining := drop n (remaining r)\<rparr>))"

definition ReadByte :: "ReadBuffer \<Rightarrow> byte \<times> ReadBuffer" where
  "ReadByte r =
     (if rb_err r \<noteq> None then (0, r)
      else case remaining r of
             [] \<Rightarrow> (0, r\<lparr>rb_err := Some ErrEOF\<rparr>)
           | b # bs \<Rightarrow> (b, r\<lparr>remaining := bs\<rparr>))"

definition RErr :: "ReadBuffer \<Rightarrow> error option" where
  "RErr r = rb_err r"

subsection \<open>Messages, checksums and fragments\<close>

text \<open>
  The \<^verbatim>\<open>message\<close> interface as reqres.go uses it: a message type code, a writer into a write
  buffer and a reader from a read buffer, each returning an error or nil. The concrete
  messages are not in reqres.go, so a message is any triple of such operations.
\<close>

record message =
  messageType :: byte
  msg_write :: "WriteBuffer \<Rightarrow> error option \<times> WriteBuffer"
  msg_read :: "ReadBuffer \<Rightarrow> error option \<times> ReadBuffer"

text \<open>The \<^verbatim>\<open>Checksum\<close> interface as \<^verbatim>\<open>newFragment\<close> uses it: \<^verbatim>\<open>TypeCode()\<close> and \<^verbatim>\<open>Size()\<close>.\<close>

record Checksum =
  TypeCode :: byte
  Size :: nat

text \<open>
  A writable fragment. In Go \<^verbatim>\<open>contents\<close> is a write buffer over the payload array of
  \<^verbatim>\<open>frame\<close>, so the two share memory: here the live payload bytes are \<open>buffer (wf_contents f)\<close>
  and \<open>wf_Frame\<close> gives the frame as the memory holds it.
\<close>

record writableFragment =
  wf_frame :: Frame
  wf_flagsRef :: "nat option"
  wf_checksumRef :: "(nat \<times> nat) option"
  wf_checksum :: Checksum
  wf_contents :: WriteBuffer

definition wf_Frame :: "writableFragment \<Rightarrow> Frame" where
  "wf_Frame f = (wf_frame f)\<lparr>Payload := buffer (wf_contents f)\<rparr>"

record readableFragment =
  rf_flags :: byte
  rf_checksumType :: byte
  rf_checksum :: "byte list"
  rf_contents :: ReadBuffer

subsection \<open>The message exchange and the connection\<close>

text \<open>
  The message exchange as reqres.go uses it: the correlation id, the call's context
  (\<open>None\<close> while its \<^verbatim>\<open>Done\<close> channel is open, \<open>Some e\<close> once it is closed and \<^verbatim>\<open>Err()\<close> is
  \<open>e\<close>) and the frames queued for the call. The connection is its send channel: the frames
  queued on it and its capacity (a receiver parked on the channel counts as a free slot).
\<close>

record messageExchange =
  msgID :: "32 word"
  ctx :: "error option"
  recvCh :: "Frame list"

record Connection =
  sendCh :: "Frame list"
  sendCap :: nat

text \<open>
  The calls a writer or reader makes on its collaborators are logged in the instance, in
  order: \<^verbatim>\<open>mex.shutdown()\<close>, \<^verbatim>\<open>contents.ArgWriter(last)\<close>, \<^verbatim>\<open>contents.ArgReader(last)\<close> and
  \<^verbatim>\<open>mex.recvPeerFrameOfType(t)\<close>.
\<close>

datatype call =
    CallShutdown
  | CallArgWriter bool
  | CallArgReader bool
  | CallRecvPeerFrameOfType byte

definition shutdown_calls :: "call list \<Rightarrow> nat" where
  "shutdown_calls cs = length (filter (\<lambda>c. c = CallShutdown) cs)"

subsection \<open>The writer\<close>

datatype reqResWriterState =
    reqResWriterPreArg1
  | reqResWriterPreArg2
  | reqResWriterPreArg3
  | reqResWriterComplete

text \<open>
  \<open>'c\<close> is the state of the fragmenting writer behind \<^verbatim>\<open>contents\<close>, whose code is not in
  reqres.go: its \<^verbatim>\<open>ArgWriter\<close> method is a parameter \<open>aw\<close> of the functions that call it, and
  \<open>'h\<close> is the handle (\<^verbatim>\<open>io.WriteCloser\<close>) it returns.
\<close>

record 'c reqResWriter =
  w_conn :: Connection
  w_contents :: 'c
  w_mex :: messageExchange
  w_state :: reqResWriterState
  w_messageForFragment :: "bool \<Rightarrow> message"
  w_err :: "error option"
  w_calls :: "call list"

text \<open>\<^verbatim>\<open>failed\<close> (writer). Every call site passes a non-nil error.\<close>

definition w_failed :: "error \<Rightarrow> 'c reqResWriter \<Rightarrow> error option \<times> 'c reqResWriter" where
  "w_failed e w =
     (case w_err w of
        Some e0 \<Rightarrow> (Some e0, w)
      | None \<Rightarrow> (Some e, w\<lparr>w_err := Some e, w_calls := w_calls w @ [CallShutdown]\<rparr>))"

definition argWriter ::
  "(bool \<Rightarrow> 'c \<Rightarrow> ('h option \<times> error option) \<times> 'c) \<Rightarrow> bool \<Rightarrow> reqResWriterState \<Rightarrow>
   reqResWriterState \<Rightarrow> 'c reqResWriter \<Rightarrow> ('h option \<times> error option) \<times> 'c reqResWriter" where
  "argWriter aw isLast inState outState w =
     (case w_err w of
        Some e0 \<Rightarrow> ((None, Some e0), w)
      | None \<Rightarrow>
          if w_state w \<noteq> inState then
            (case w_failed errReqResWriterStateMismatch w of (e, w') \<Rightarrow> ((None, e), w'))
          else
            (case aw isLast (w_contents w) of
               ((h, e), c') \<Rightarrow>
                 let w' = w\<lparr>w_contents := c', w_calls := w_calls w @ [CallArgWriter isLast]\<rparr>
                 in (case e of
                       Some e1 \<Rightarrow> ((None, Some e1), w')
                     | None \<Rightarrow> ((h, None), w'\<lparr>w_state := outState\<rparr>))))"

definition arg1Writer ::
  "(bool \<Rightarrow> 'c \<Rightarrow> ('h option \<times> error option) \<times> 'c) \<Rightarrow> 'c reqResWriter \<Rightarrow>
   ('h option \<times> error option) \<times> 'c reqResWriter" where
  "arg1Writer aw w = argWriter aw False reqResWriterPreArg1 reqResWriterPreArg2 w"

definition arg2Writer ::
  "(bool \<Rightarrow> 'c \<Rightarrow> ('h option \<times> error option) \<times> 'c) \<Rightarrow> 'c reqResWriter \<Rightarrow>
   ('h option \<times> error option) \<times> 'c reqResWriter" where
  "arg2Writer aw w = argWriter aw False reqResWriterPreArg2 reqResWriterPreArg3 w"

definition arg3Writer ::
  "(bool \<Rightarrow> 'c \<Rightarrow> ('h option \<times> error option) \<times> 'c) \<Rightarrow> 'c reqResWriter \<Rightarrow>
   ('h option \<times> error option) \<times> 'c reqResWriter" where
  "arg3Writer aw w = argWriter aw True reqResWriterPreArg3 reqResWriterComplete w"

text \<open>
  \<^verbatim>\<open>newFragment\<close>. \<open>pooled\<close> is the frame that \<^verbatim>\<open>w.conn.framePool.Get()\<close> hands out. The
  flag slot is deferred first, then the message writes its fields, then the checksum type
  code is written and the checksum slot deferred; the write buffer, positioned after the
  checksum slot, becomes the fragment's \<^verbatim>\<open>contents\<close>.
\<close>

definition newFragment ::
  "Frame \<Rightarrow> 'c reqResWriter \<Rightarrow> bool \<Rightarrow> Checksum \<Rightarrow> writableFragment option \<times> error option" where
  "newFragment pooled w initial checksum =
     (let message = w_messageForFragment w initial;
          frame = pooled\<lparr>Header := (Header pooled)
                    \<lparr>ID := msgID (w_mex w), hdr_messageType := messageType message\<rparr>\<rparr>;
          wbuf0 = NewWriteBuffer (Payload frame)
      in case DeferByte wbuf0 of
           (flagsRef, wbuf1) \<Rightarrow>
             (case msg_write message wbuf1 of
                (Some e, wbuf2) \<Rightarrow> (None, Some e)
              | (None, wbuf2) \<Rightarrow>
                  (case DeferBytes (Size checksum) (WriteByte (TypeCode checksum) wbuf2) of
                     (checksumRef, wbuf4) \<Rightarrow>
                       (Some \<lparr>wf_frame = frame, wf_flagsRef = flagsRef,
                              wf_checksumRef = checksumRef, wf_checksum = checksum,
                              wf_contents = wbuf4\<rparr>,
                        Err wbuf4))))"

text \<open>
  \<^verbatim>\<open>flushFragment\<close>. The Go \<^verbatim>\<open>select\<close> has three cases: receive from the context's \<^verbatim>\<open>Done\<close>
  channel, send on the connection's send channel, and \<^verbatim>\<open>default\<close>. \<^verbatim>\<open>default\<close> runs only when
  neither communication can proceed; when both can, Go picks one of them at random, which the
  parameter \<open>pick\<close> resolves. The payload size is set in the frame before the \<^verbatim>\<open>select\<close>, so
  the fragment is returned with its frame updated.
\<close>

datatype select_pick = PickDone | PickSend

definition flushFragment ::
  "select_pick \<Rightarrow> 'c reqResWriter \<Rightarrow> writableFragment \<Rightarrow>
   error option \<times> 'c reqResWriter \<times> writableFragment" where
  "flushFragment pick w fragment =
     (case w_err w of
        Some e0 \<Rightarrow> (Some e0, w, fragment)
      | None \<Rightarrow>
          let fragment' = fragment\<lparr>wf_frame :=
                SetPayloadSize (word_of_nat (BytesWritten (wf_contents fragment)))
                  (wf_frame fragment)\<rparr>;
              frame = wf_Frame fragment';
              can_send = (length (sendCh (w_conn w)) < sendCap (w_conn w));
              sent = w\<lparr>w_conn := (w_conn w)\<lparr>sendCh := sendCh (w_conn w) @ [frame]\<rparr>\<rparr>
          in (case ctx (w_mex w) of
                Some e \<Rightarrow>
                  if can_send \<and> pick = PickSend then (None, sent, fragment')
                  else (case w_failed e w of (e', w') \<Rightarrow> (e', w', fragment'))
              | None \<Rightarrow>
                  if can_send then (None, sent, fragment')
                  else (case w_failed ErrSendBufferFull w of (e', w') \<Rightarrow> (e', w', fragment'))))"

subsection \<open>The reader\<close>

datatype reqResReaderState =
    reqResReaderPreArg1
  | reqResReaderPreArg2
  | reqResReaderPreArg3
  | reqResReaderComplete

record 'c reqResReader =
  r_contents :: 'c
  r_mex :: messageExchange
  r_state :: reqResReaderState
  r_messageForFragment :: "bool \<Rightarrow> message"
  r_initialFragment :: "readableFragment option"
  r_err :: "error option"
  r_calls :: "call list"

text \<open>\<^verbatim>\<open>failed\<close> (reader). Every call site passes a non-nil error.\<close>

definition r_failed :: "error \<Rightarrow> 'c reqResReader \<Rightarrow> error option \<times> 'c reqResReader" where
  "r_failed e r =
     (case r_err r of
        Some e0 \<Rightarrow> (Some e0, r)
      | None \<Rightarrow> (Some e, r\<lparr>r_err := Some e, r_calls := r_calls r @ [CallShutdown]\<rparr>))"

definition argReader ::
  "(bool \<Rightarrow> 'c \<Rightarrow> ('h option \<times> error option) \<times> 'c) \<Rightarrow> bool \<Rightarrow> reqResReaderState \<Rightarrow>
   reqResReaderState \<Rightarrow> 'c reqResReader \<Rightarrow> ('h option \<times> error option) \<times> 'c reqResReader" where
  "argReader ar isLast inState outState r =
     (if r_state r \<noteq> inState then
        (case r_failed errReqResReaderStateMismatch r of (e, r') \<Rightarrow> ((None, e), r'))
      else
        (case ar isLast (r_contents r) of
           ((h, e), c') \<Rightarrow>
             let r' = r\<lparr>r_contents := c', r_calls := r_calls r @ [CallArgReader isLast]\<rparr>
             in (case e of
                   Some e1 \<Rightarrow> (case r_failed e1 r' of (e2, r'') \<Rightarrow> ((None, e2), r''))
                 | None \<Rightarrow> ((h, None), r'\<lparr>r_state := outState\<rparr>))))"

definition arg1Reader ::
  "(bool \<Rightarrow> 'c \<Rightarrow> ('h option \<times> error option) \<times> 'c) \<Rightarrow> 'c reqResReader \<Rightarrow>
   ('h option \<times> error option) \<times> 'c reqResReader" where
  "arg1Reader ar r = argReader ar False reqResReaderPreArg1 reqResReaderPreArg2 r"

definition arg2Reader ::
  "(bool \<Rightarrow> 'c \<Rightarrow> ('h option \<times> error option) \<times> 'c) \<Rightarrow> 'c reqResReader \<Rightarrow>
   ('h option \<times> error option) \<times> 'c reqResReader" where
  "arg2Reader ar r = argReader ar False reqResReaderPreArg2 reqResReaderPreArg3 r"

definition arg3Reader ::
  "(bool \<Rightarrow> 'c \<Rightarrow> ('h option \<times> error option) \<times> 'c) \<Rightarrow> 'c reqResReader \<Rightarrow>
   ('h option \<times> error option) \<times> 'c reqResReader" where
  "arg3Reader ar r = argReader ar True reqResReaderPreArg3 reqResReaderComplete r"

text \<open>
  \<^verbatim>\<open>parseInboundFragment\<close>. \<open>ChecksumSize\<close> is the digest size of a checksum type
  (\<^verbatim>\<open>ChecksumType.ChecksumSize\<close>), which is declared outside reqres.go.
\<close>

definition parseInboundFragment ::
  "(byte \<Rightarrow> nat) \<Rightarrow> Frame \<Rightarrow> message \<Rightarrow> readableFragment option \<times> error option" where
  "parseInboundFragment ChecksumSize frame message =
     (let rbuf0 = NewReadBuffer (SizedPayload frame)
      in case ReadByte rbuf0 of
           (flags, rbuf1) \<Rightarrow>
             (case msg_read message rbuf1 of
                (Some e, rbuf2) \<Rightarrow> (None, Some e)
              | (None, rbuf2) \<Rightarrow>
                  (case ReadByte rbuf2 of
                     (checksumType, rbuf3) \<Rightarrow>
                       (case ReadBytes (ChecksumSize checksumType) rbuf3 of
                          (checksum, rbuf4) \<Rightarrow>
                            (Some \<lparr>rf_flags = flags, rf_checksumType = checksumType,
                                   rf_checksum = checksum, rf_contents = rbuf4\<rparr>,
                             RErr rbuf4)))))"

text \<open>
  \<^verbatim>\<open>recvNextFragment\<close>. \<open>recv\<close> is \<^verbatim>\<open>mex.recvPeerFrameOfType\<close>, whose code is not in reqres.go:
  given the exchange and the expected message type it returns an error (\<open>Inl\<close>) or a frame
  (\<open>Inr\<close>), and the exchange as the call leaves it. A wait is modelled by the result it ends
  with.
\<close>

definition recvNextFragment ::
  "(messageExchange \<Rightarrow> byte \<Rightarrow> (error + Frame) \<times> messageExchange) \<Rightarrow>
   (byte \<Rightarrow> nat) \<Rightarrow> 'c reqResReader \<Rightarrow> bool \<Rightarrow>
   (readableFragment option \<times> error option) \<times> 'c reqResReader" where
  "recvNextFragment recv ChecksumSize r initial =
     (case r_initialFragment r of
        Some fragment \<Rightarrow> ((Some fragment, None), r\<lparr>r_initialFragment := None\<rparr>)
      | None \<Rightarrow>
          let message = r_messageForFragment r initial
          in (case recv (r_mex r) (messageType message) of
                (res, mex') \<Rightarrow>
                  let r1 = r\<lparr>r_mex := mex',
                             r_calls := r_calls r @ [CallRecvPeerFrameOfType (messageType message)]\<rparr>
                  in (case res of
                        Inl e1 \<Rightarrow> (case r_failed e1 r1 of (e2, r2) \<Rightarrow> ((None, e2), r2))
                      | Inr frame \<Rightarrow>
                          (case parseInboundFragment ChecksumSize frame message of
                             (fragment, Some e3) \<Rightarrow>
                               (case r_failed e3 r1 of (e4, r4) \<Rightarrow> ((None, e4), r4))
                           | (fragment, None) \<Rightarrow> ((fragment, None), r1)))))"

subsection \<open>Sequences of failures\<close>

text \<open>Recording the failures \<open>es\<close> one after the other, through \<^verbatim>\<open>failed\<close>.\<close>

definition w_failures :: "error list \<Rightarrow> 'c reqResWriter \<Rightarrow> 'c reqResWriter" where
  "w_failures es w = foldl (\<lambda>w' e. snd (w_failed e w')) w es"

definition r_failures :: "error list \<Rightarrow> 'c reqResReader \<Rightarrow> 'c reqResReader" where
  "r_failures es r = foldl (\<lambda>r' e. snd (r_failed e r')) r es"

subsection \<open>Concrete instances\<close>

text \<open>
  A message whose fields are a fixed byte string: it writes them through the write buffer
  and reads the same number of bytes back, returning the buffer's error as the messages of
  the protocol do.
\<close>

definition bytes_message :: "byte \<Rightarrow> byte list \<Rightarrow> message" where
  "bytes_message t bs =
     \<lparr>messageType = t,
      msg_write = (\<lambda>wb. (Err (WriteBytes bs wb), WriteBytes bs wb)),
      msg_read = (\<lambda>rb. (RErr (snd (ReadBytes (length bs) rb)),
                         snd (ReadBytes (length bs) rb)))\<rparr>"

definition example_messageForFragment :: "bool \<Rightarrow> message" where
  "example_messageForFragment initial =
     (if initial then bytes_message 0x03 [0xAA, 0xBB] else bytes_message 0x13 [])"

definition example_mex :: messageExchange where
  "example_mex = \<lparr>msgID = 7, ctx = None, recvCh = []\<rparr>"

definition example_writer :: "nat reqResWriter" where
  "example_writer =
     \<lparr>w_conn = \<lparr>sendCh = [], sendCap = 1\<rparr>, w_contents = 0, w_mex = example_mex,
      w_state = reqResWriterPreArg1, w_messageForFragment = example_messageForFragment,
      w_err = None, w_calls = []\<rparr>"

definition example_reader :: "nat reqResReader" where
  "example_reader =
     \<lparr>r_contents = 0, r_mex = example_mex, r_state = reqResReaderPreArg1,
      r_messageForFragment = example_messageForFragment, r_initialFragment = None,
      r_err = None, r_calls = []\<rparr>"

text \<open>
  Two stand-ins for the fragmenting writer or reader behind \<^verbatim>\<open>contents\<close>: one whose
  \<^verbatim>\<open>ArgWriter\<close>/\<^verbatim>\<open>ArgReader\<close> always succeeds and counts its calls, and one that fails on its
  first call only.
\<close>

definition open_ok :: "bool \<Rightarrow> nat \<Rightarrow> (unit option \<times> error option) \<times> nat" where
  "open_ok isLast c = ((Some (), None), Suc c)"


text \<open>A writer and a reader taken through the three arguments in order.\<close>

definition example_writer1 :: "nat reqResWriter" where
  "example_writer1 = snd (arg1Writer open_ok example_writer)"



definition example_reader1 :: "nat reqResReader" where
  "example_reader1 = snd (arg1Reader open_ok example_reader)"

definition example_reader2 :: "nat reqResReader" where
  "example_reader2 = snd (arg2Reader open_ok example_reader1)"

definition example_reader3 :: "nat reqResReader" where
  "example_reader3 = snd (arg3Reader open_ok example_reader2)"

text \<open>
  A checksum, a pooled frame with a 12-byte payload array, the initial fragment built in it,
  a writer whose send channel has no room, that writer after a failed flush, and a reader
  after an out-of-sequence open.
\<close>

definition example_checksum :: Checksum where
  "example_checksum = \<lparr>TypeCode = 1, Size = 4\<rparr>"

definition example_pooled :: Frame where
  "example_pooled =
     \<lparr>Header = \<lparr>ID = 0, hdr_messageType = 0, payloadSize = 0\<rparr>, Payload = replicate 12 0xFF\<rparr>"

definition example_fragment :: writableFragment where
  "example_fragment = the (fst (newFragment example_pooled example_writer True example_checksum))"

definition example_writer_stalled :: "nat reqResWriter" where
  "example_writer_stalled = example_writer1\<lparr>w_conn := \<lparr>sendCh = [], sendCap = 0\<rparr>\<rparr>"

definition example_writer_latched :: "nat reqResWriter" where
  "example_writer_latched =
     fst (snd (flushFragment PickSend example_writer_stalled example_fragment))"

definition example_reader_latched :: "nat reqResReader" where
  "example_reader_latched = snd (arg3Reader open_ok example_reader1)"

text \<open>
  For the reader: the digest sizes of a checksum table (no digest for type 0, four bytes
  otherwise), an exchange whose \<^verbatim>\<open>recvPeerFrameOfType\<close> hands out the queued frames in order,
  an inbound frame with its parsed form, a reader built from an already received first
  fragment and a reader with that frame still queued on the exchange.
\<close>

definition example_ChecksumSize :: "byte \<Rightarrow> nat" where
  "example_ChecksumSize t = (if t = 0 then 0 else 4)"

definition recv_queue :: "messageExchange \<Rightarrow> byte \<Rightarrow> (error + Frame) \<times> messageExchange" where
  "recv_queue mex t =
     (case recvCh mex of
        [] \<Rightarrow> (Inl (case ctx mex of Some e \<Rightarrow> e | None \<Rightarrow> ContextDeadlineExceeded), mex)
      | frame # rest \<Rightarrow>
          if hdr_messageType (Header frame) = t then (Inr frame, mex\<lparr>recvCh := rest\<rparr>)
          else (Inl (ErrOther ''unexpected frame type''), mex\<lparr>recvCh := rest\<rparr>))"

definition example_frame :: Frame where
  "example_frame =
     \<lparr>Header = \<lparr>ID = 7, hdr_messageType = 3, payloadSize = 10\<rparr>,
      Payload = [0, 0xAA, 0xBB, 1, 9, 8, 7, 6, 0x10, 0x20, 0xFF, 0xFF]\<rparr>"

definition example_readable :: readableFragment where
  "example_readable =
     \<lparr>rf_flags = 0, rf_checksumType = 1, rf_checksum = [9, 8, 7, 6],
      rf_contents = \<lparr>remaining = [0x10, 0x20], rb_err = None\<rparr>\<rparr>"

definition example_reader_cached :: "nat reqResReader" where
  "example_reader_cached = example_reader\<lparr>r_initialFragment := Some example_readable\<rparr>"

definition example_reader_queued :: "nat reqResReader" where
  "example_reader_queued = example_reader\<lparr>r_mex := example_mex\<lparr>recvCh := [example_frame]\<rparr>\<rparr>"

text \<open>
  For the flush: a writer whose call has been cancelled while the send channel has room, and
  the frame that a flush of the example fragment puts on the channel.
\<close>

definition example_writer_cancelled :: "nat reqResWriter" where
  "example_writer_cancelled = example_writer1\<lparr>w_mex := example_mex\<lparr>ctx := Some ContextCanceled\<rparr>\<rparr>"

definition example_flushed_frame :: Frame where
  "example_flushed_frame =
     \<lparr>Header = \<lparr>ID = 7, hdr_messageType = 3, payloadSize = 8\<rparr>,
      Payload = [0, 0xAA, 0xBB, 1, 0, 0, 0, 0, 0xFF, 0xFF, 0xFF, 0xFF]\<rparr>"

subsection \<open>The payload of a fragment\<close>

text \<open>The bytes written so far: what \<^verbatim>\<open>flushFragment\<close> declares as the frame's payload.\<close>

definition written :: "WriteBuffer \<Rightarrow> byte list" where
  "written w = take (BytesWritten w) (buffer w)"

text \<open>
  Modelled from the spec: the fragmenting writer, which fills a fragment between
  \<^verbatim>\<open>newFragment\<close> and \<^verbatim>\<open>flushFragment\<close>, is not part of the sources at hand. By the spec it
  writes the argument bytes of the fragment through the fragment's write cursor and fills
  the two deferred slots afterwards, the checksum value "after all argument bytes for this
  fragment are known" and the flag byte "once the whole fragment is sized".
\<close>

definition fill_fragment ::
  "byte \<Rightarrow> byte list \<Rightarrow> byte list \<Rightarrow> writableFragment \<Rightarrow> writableFragment" where
  "fill_fragment flag args csum f =
     f\<lparr>wf_contents :=
         ByteRef_Update (wf_flagsRef f) flag
           (BytesRef_Update (wf_checksumRef f) csum (WriteBytes args (wf_contents f)))\<rparr>"

text \<open>
  The layout in the words of the spec: message header fields, one flag byte, the argument
  payload bytes, one checksum-type byte, the checksum value.
\<close>

definition spec_layout ::
  "byte list \<Rightarrow> byte \<Rightarrow> byte list \<Rightarrow> byte \<Rightarrow> byte list \<Rightarrow> byte list" where
  "spec_layout hdr flag args ctype csum = hdr @ [flag] @ args @ [ctype] @ csum"

text \<open>A frame whose payload follows the layout in the words of the spec.\<close>

definition example_spec_frame :: Frame where
  "example_spec_frame =
     \<lparr>Header = \<lparr>ID = 7, hdr_messageType = 3, payloadSize = 10\<rparr>,
      Payload = spec_layout [0xAA, 0xBB] 1 [0x10, 0x20] 1 [9, 8, 7, 6]\<rparr>"

subsection \<open>A call across a simulated transport\<close>











section \<open>Properties\<close>

subsection \<open>The failure latch\<close>

lemma w_failed_first:
  "w_err w = None \<Longrightarrow>
   w_failed e w = (Some e, w\<lparr>w_err := Some e, w_calls := w_calls w @ [CallShutdown]\<rparr>)"
  by (simp add: w_failed_def)

lemma w_failed_latched: "w_err w = Some e0 \<Longrightarrow> w_failed e w = (Some e0, w)"
  by (simp add: w_failed_def)

lemma w_failures_latched: "w_err w = Some e0 \<Longrightarrow> w_failures es w = w"
  unfolding w_failures_def by (induction es) (simp_all add: w_failed_def)

lemma r_failed_first:
  "r_err r = None \<Longrightarrow>
   r_failed e r = (Some e, r\<lparr>r_err := Some e, r_calls := r_calls r @ [CallShutdown]\<rparr>)"
  by (simp add: r_failed_def)

lemma r_failed_latched: "r_err r = Some e0 \<Longrightarrow> r_failed e r = (Some e0, r)"
  by (simp add: r_failed_def)

lemma r_failures_latched: "r_err r = Some e0 \<Longrightarrow> r_failures es r = r"
  unfolding r_failures_def by (induction es) (simp_all add: r_failed_def)

lemma w_failures_Cons:
  "w_err w = None \<Longrightarrow>
   w_failures (e # es) w = w\<lparr>w_err := Some e, w_calls := w_calls w @ [CallShutdown]\<rparr>"
proof -
  assume "w_err w = None"
  then have "w_failures (e # es) w =
      w_failures es (w\<lparr>w_err := Some e, w_calls := w_calls w @ [CallShutdown]\<rparr>)"
    by (simp add: w_failures_def w_failed_first)
  then show ?thesis by (simp add: w_failures_latched)
qed

lemma r_failures_Cons:
  "r_err r = None \<Longrightarrow>
   r_failures (e # es) r = r\<lparr>r_err := Some e, r_calls := r_calls r @ [CallShutdown]\<rparr>"
proof -
  assume "r_err r = None"
  then have "r_failures (e # es) r =
      r_failures es (r\<lparr>r_err := Some e, r_calls := r_calls r @ [CallShutdown]\<rparr>)"
    by (simp add: r_failures_def r_failed_first)
  then show ?thesis by (simp add: r_failures_latched)
qed

text \<open>
  Claim C4. On a writer and on a reader that hold no error, the first failure recorded
  through \<^verbatim>\<open>failed\<close> is stored and returned and the exchange's shutdown is called once. Any
  further failures \<open>es\<close> recorded afterwards leave the stored error as it is, are answered
  with the stored error, and add no call: after the whole sequence the instance differs from
  the initial one by the first error and by exactly one shutdown call.
\<close>

theorem failed_first_error_wins:
  assumes "w_err w = None" and "r_err r = None"
  shows "w_failed e w = (Some e, w\<lparr>w_err := Some e, w_calls := w_calls w @ [CallShutdown]\<rparr>)
       \<and> w_failures (e # es) w = w\<lparr>w_err := Some e, w_calls := w_calls w @ [CallShutdown]\<rparr>
       \<and> w_failed e' (w_failures (e # es) w) = (Some e, w_failures (e # es) w)
       \<and> shutdown_calls (w_calls (w_failures (e # es) w)) = shutdown_calls (w_calls w) + 1
       \<and> r_failed e r = (Some e, r\<lparr>r_err := Some e, r_calls := r_calls r @ [CallShutdown]\<rparr>)
       \<and> r_failures (e # es) r = r\<lparr>r_err := Some e, r_calls := r_calls r @ [CallShutdown]\<rparr>
       \<and> r_failed e' (r_failures (e # es) r) = (Some e, r_failures (e # es) r)
       \<and> shutdown_calls (r_calls (r_failures (e # es) r)) = shutdown_calls (r_calls r) + 1"
  using assms
  by (simp add: w_failed_first r_failed_first w_failures_Cons r_failures_Cons
      w_failed_latched r_failed_latched shutdown_calls_def)

theorem failed_first_error_wins_witness:
  "w_err example_writer = None \<and> r_err example_reader = None
   \<and> w_err (w_failures [ErrSendBufferFull, errReqResWriterStateMismatch, ContextCanceled]
        example_writer) = Some ErrSendBufferFull
   \<and> shutdown_calls (w_calls (w_failures
        [ErrSendBufferFull, errReqResWriterStateMismatch, ContextCanceled] example_writer)) = 1
   \<and> r_err (r_failures [ErrSendBufferFull, errReqResWriterStateMismatch, ContextCanceled]
        example_reader) = Some ErrSendBufferFull
   \<and> shutdown_calls (r_calls (r_failures
        [ErrSendBufferFull, errReqResWriterStateMismatch, ContextCanceled] example_reader)) = 1"
proof -
  have hw: "w_err example_writer = None" by (simp add: example_writer_def)
  have hr: "r_err example_reader = None" by (simp add: example_reader_def)
  note t = failed_first_error_wins [OF hw hr, of ErrSendBufferFull
      "[errReqResWriterStateMismatch, ContextCanceled]" ErrEOF]
  from t have a: "w_failures [ErrSendBufferFull, errReqResWriterStateMismatch, ContextCanceled]
       example_writer = example_writer\<lparr>w_err := Some ErrSendBufferFull,
          w_calls := w_calls example_writer @ [CallShutdown]\<rparr>" by blast
  from t have b: "r_failures [ErrSendBufferFull, errReqResWriterStateMismatch, ContextCanceled]
       example_reader = example_reader\<lparr>r_err := Some ErrSendBufferFull,
          r_calls := r_calls example_reader @ [CallShutdown]\<rparr>" by blast
  show ?thesis unfolding a b
    by (simp add: shutdown_calls_def example_writer_def example_reader_def)
qed

subsection \<open>The order of the arguments\<close>









subsection \<open>The concrete instances, computed\<close>

lemma example_writer1_eq:
  "example_writer1 = example_writer\<lparr>w_contents := 1, w_state := reqResWriterPreArg2,
      w_calls := [CallArgWriter False]\<rparr>"
  by (simp add: example_writer1_def arg1Writer_def argWriter_def open_ok_def example_writer_def)

lemma example_reader1_eq:
  "example_reader1 = example_reader\<lparr>r_contents := 1, r_state := reqResReaderPreArg2,
      r_calls := [CallArgReader False]\<rparr>"
  by (simp add: example_reader1_def arg1Reader_def argReader_def open_ok_def example_reader_def)

lemma example_fragment_eq:
  "example_fragment =
     \<lparr>wf_frame = \<lparr>Header = \<lparr>ID = 7, hdr_messageType = 3, payloadSize = 0\<rparr>,
                   Payload = replicate 12 0xFF\<rparr>,
      wf_flagsRef = Some 0, wf_checksumRef = Some (4, 4), wf_checksum = example_checksum,
      wf_contents = \<lparr>buffer = [0, 0xAA, 0xBB, 1, 0, 0, 0, 0, 0xFF, 0xFF, 0xFF, 0xFF],
                     pos = 8, wb_err = None\<rparr>\<rparr>"
  by (simp add: example_fragment_def newFragment_def example_pooled_def example_writer_def
      example_checksum_def example_messageForFragment_def bytes_message_def example_mex_def
      NewWriteBuffer_def DeferByte_def DeferBytes_def reserve_def splice_def WriteByte_def
      WriteBytes_def Err_def Let_def numeral_eq_Suc)

lemma example_writer_latched_eq:
  "example_writer_latched = example_writer_stalled\<lparr>w_err := Some ErrSendBufferFull,
      w_calls := [CallArgWriter False, CallShutdown]\<rparr>"
  by (simp add: example_writer_latched_def flushFragment_def example_writer_stalled_def
      example_writer1_eq example_writer_def example_mex_def w_failed_def Let_def)

lemma example_reader3_eq:
  "example_reader3 = example_reader\<lparr>r_contents := 3, r_state := reqResReaderComplete,
      r_calls := [CallArgReader False, CallArgReader False, CallArgReader True]\<rparr>"
  by (simp add: example_reader3_def example_reader2_def example_reader1_def arg1Reader_def
      arg2Reader_def arg3Reader_def argReader_def open_ok_def example_reader_def)

subsection \<open>Opening an argument out of sequence\<close>

text \<open>
  Claim C6, as stated, fails on a latched instance. The writer below has opened argument 1
  and then failed a flush on a full send channel, which latched \<^verbatim>\<open>ErrSendBufferFull\<close>; opening
  argument 3 in state PreArg2 is out of sequence, and it returns the latched error, not the
  state-mismatch error.
\<close>

theorem out_of_sequence_latched_counterexample:
  "w_state example_writer_latched = reqResWriterPreArg2
 \<and> arg3Writer open_ok example_writer_latched
       = ((None, Some ErrSendBufferFull), example_writer_latched)"
  by (simp add: example_writer_latched_eq example_writer_stalled_def example_writer1_eq
      arg3Writer_def argWriter_def)

text \<open>
  Claim C6, amended. Opening an argument when the machine is not in the expected pre-state
  (out of sequence, or after Complete) fails; the error is the state-mismatch error when the
  instance holds no error, and that error is then latched with one shutdown call; it is the
  latched error when the instance already holds one, and the instance is then not changed at
  all. In both cases the state and the fragmenting writer or reader behind \<^verbatim>\<open>contents\<close> are
  as before the call.
\<close>

theorem out_of_sequence_open:
  assumes "w_state w \<noteq> inState" and "r_state r \<noteq> inState'"
  shows "argWriter aw isLast inState outState w =
           (case w_err w of
              None \<Rightarrow> ((None, Some errReqResWriterStateMismatch),
                        w\<lparr>w_err := Some errReqResWriterStateMismatch,
                          w_calls := w_calls w @ [CallShutdown]\<rparr>)
            | Some e \<Rightarrow> ((None, Some e), w))
       \<and> w_state (snd (argWriter aw isLast inState outState w)) = w_state w
       \<and> w_contents (snd (argWriter aw isLast inState outState w)) = w_contents w
       \<and> argReader ar isLast' inState' outState' r =
           (case r_err r of
              None \<Rightarrow> ((None, Some errReqResReaderStateMismatch),
                        r\<lparr>r_err := Some errReqResReaderStateMismatch,
                          r_calls := r_calls r @ [CallShutdown]\<rparr>)
            | Some e \<Rightarrow> ((None, Some e), r))
       \<and> r_state (snd (argReader ar isLast' inState' outState' r)) = r_state r
       \<and> r_contents (snd (argReader ar isLast' inState' outState' r)) = r_contents r"
  using assms
  by (simp add: argWriter_def argReader_def w_failed_def r_failed_def split: option.splits)

theorem out_of_sequence_open_witness:
  "w_state example_writer \<noteq> reqResWriterPreArg2
 \<and> r_state example_reader3 \<noteq> reqResReaderPreArg3
 \<and> arg2Writer open_ok example_writer =
       ((None, Some errReqResWriterStateMismatch),
        example_writer\<lparr>w_err := Some errReqResWriterStateMismatch,
          w_calls := [CallShutdown]\<rparr>)
 \<and> arg3Reader open_ok example_reader3 =
       ((None, Some errReqResReaderStateMismatch),
        example_reader3\<lparr>r_err := Some errReqResReaderStateMismatch,
          r_calls := [CallArgReader False, CallArgReader False, CallArgReader True,
                      CallShutdown]\<rparr>)"
proof -
  have hw: "w_state example_writer \<noteq> reqResWriterPreArg2"
    by (simp add: example_writer_def)
  have hr: "r_state example_reader3 \<noteq> reqResReaderPreArg3"
    by (simp add: example_reader3_eq)
  have ew: "w_err example_writer = None" "w_calls example_writer = []"
    by (simp_all add: example_writer_def)
  have er: "r_err example_reader3 = None"
    "r_calls example_reader3 = [CallArgReader False, CallArgReader False, CallArgReader True]"
    by (simp_all add: example_reader3_eq example_reader_def)
  note t = out_of_sequence_open [OF hw hr, of open_ok False reqResWriterPreArg3
      open_ok True reqResReaderComplete]
  from t hw hr show ?thesis
    by (simp add: arg2Writer_def arg3Reader_def ew er)
qed

subsection \<open>A failure of the fragmenting writer or reader at open\<close>



subsection \<open>Opening an argument on a latched instance\<close>

text \<open>The writer answers every open with the latched error and touches nothing.\<close>

lemma argWriter_latched:
  "w_err w = Some e0 \<Longrightarrow> argWriter aw isLast inState outState w = ((None, Some e0), w)"
  by (simp add: argWriter_def)

text \<open>
  Claim C2 at a failing input. The reader below opened argument 1 and then argument 3 out of
  sequence, which latched the state-mismatch error and left the state at PreArg2.
  \<^verbatim>\<open>argReader\<close> has no check of the latch: opening argument 2 calls \<^verbatim>\<open>contents.ArgReader\<close>,
  returns its handle with a nil error and advances the state.
\<close>

theorem argReader_ignores_latch:
  "r_err example_reader_latched = Some errReqResReaderStateMismatch
 \<and> r_state example_reader_latched = reqResReaderPreArg2
 \<and> arg2Reader open_ok example_reader_latched =
      ((Some (), None),
       example_reader_latched\<lparr>r_contents := 2, r_state := reqResReaderPreArg3,
         r_calls := [CallArgReader False, CallShutdown, CallArgReader False]\<rparr>)"
  by (simp add: example_reader_latched_def example_reader1_eq example_reader_def
      arg2Reader_def arg3Reader_def argReader_def r_failed_def open_ok_def)

subsection \<open>Receiving the next fragment\<close>

lemma example_parse:
  "parseInboundFragment example_ChecksumSize example_frame (example_messageForFragment True)
     = (Some example_readable, None)"
  by (simp add: parseInboundFragment_def example_frame_def example_messageForFragment_def
      bytes_message_def example_ChecksumSize_def example_readable_def SizedPayload_def
      NewReadBuffer_def ReadByte_def ReadBytes_def RErr_def Let_def)

text \<open>
  Claim C7. A reader that holds a cached initial fragment returns it from the next
  \<^verbatim>\<open>recvNextFragment\<close> and clears the cache, leaving the exchange and the call log untouched;
  after any call the cache is empty, so the cached fragment is delivered at most once. A
  reader without a cached fragment asks the exchange for a frame of the message type of
  \<^verbatim>\<open>messageForFragment(initial)\<close>: a frame is parsed by \<^verbatim>\<open>parseInboundFragment\<close> with that
  message and the parsed fragment returned, and an error of the exchange or of the parser is
  passed to \<^verbatim>\<open>failed\<close>.
\<close>

theorem recvNextFragment_cache_then_exchange:
  "(r_initialFragment ra = Some f \<longrightarrow>
      recvNextFragment recv cs ra initial = ((Some f, None), ra\<lparr>r_initialFragment := None\<rparr>))
 \<and> r_initialFragment (snd (recvNextFragment recv cs r initial)) = None
 \<and> (r_initialFragment rb = None
      \<and> recv (r_mex rb) (messageType (r_messageForFragment rb initial)) = (Inr frame, mex') \<longrightarrow>
      recvNextFragment recv cs rb initial =
        (case parseInboundFragment cs frame (r_messageForFragment rb initial) of
           (fragment, None) \<Rightarrow>
             ((fragment, None),
              rb\<lparr>r_mex := mex', r_calls := r_calls rb @
                [CallRecvPeerFrameOfType (messageType (r_messageForFragment rb initial))]\<rparr>)
         | (fragment, Some e) \<Rightarrow>
             ((None, Some (case r_err rb of None \<Rightarrow> e | Some e0 \<Rightarrow> e0)),
              rb\<lparr>r_mex := mex',
                 r_err := Some (case r_err rb of None \<Rightarrow> e | Some e0 \<Rightarrow> e0),
                 r_calls := r_calls rb @
                   [CallRecvPeerFrameOfType (messageType (r_messageForFragment rb initial))] @
                   (case r_err rb of None \<Rightarrow> [CallShutdown] | Some e0 \<Rightarrow> [])\<rparr>)))
 \<and> (r_initialFragment rc = None
      \<and> recv (r_mex rc) (messageType (r_messageForFragment rc initial)) = (Inl e, mex'') \<longrightarrow>
      recvNextFragment recv cs rc initial =
        ((None, Some (case r_err rc of None \<Rightarrow> e | Some e0 \<Rightarrow> e0)),
         rc\<lparr>r_mex := mex'',
            r_err := Some (case r_err rc of None \<Rightarrow> e | Some e0 \<Rightarrow> e0),
            r_calls := r_calls rc @
              [CallRecvPeerFrameOfType (messageType (r_messageForFragment rc initial))] @
              (case r_err rc of None \<Rightarrow> [CallShutdown] | Some e0 \<Rightarrow> [])\<rparr>))"
proof (intro conjI impI)
  assume "r_initialFragment ra = Some f"
  then show "recvNextFragment recv cs ra initial
      = ((Some f, None), ra\<lparr>r_initialFragment := None\<rparr>)"
    by (simp add: recvNextFragment_def)
next
  show "r_initialFragment (snd (recvNextFragment recv cs r initial)) = None"
    by (simp add: recvNextFragment_def r_failed_def Let_def
        split: option.splits prod.splits sum.splits)
next
  assume "r_initialFragment rb = None
      \<and> recv (r_mex rb) (messageType (r_messageForFragment rb initial)) = (Inr frame, mex')"
  then show "recvNextFragment recv cs rb initial =
        (case parseInboundFragment cs frame (r_messageForFragment rb initial) of
           (fragment, None) \<Rightarrow>
             ((fragment, None),
              rb\<lparr>r_mex := mex', r_calls := r_calls rb @
                [CallRecvPeerFrameOfType (messageType (r_messageForFragment rb initial))]\<rparr>)
         | (fragment, Some e) \<Rightarrow>
             ((None, Some (case r_err rb of None \<Rightarrow> e | Some e0 \<Rightarrow> e0)),
              rb\<lparr>r_mex := mex',
                 r_err := Some (case r_err rb of None \<Rightarrow> e | Some e0 \<Rightarrow> e0),
                 r_calls := r_calls rb @
                   [CallRecvPeerFrameOfType (messageType (r_messageForFragment rb initial))] @
                   (case r_err rb of None \<Rightarrow> [CallShutdown] | Some e0 \<Rightarrow> [])\<rparr>))"
    by (simp add: recvNextFragment_def r_failed_def Let_def
        split: option.splits prod.splits)
next
  assume "r_initialFragment rc = None
      \<and> recv (r_mex rc) (messageType (r_messageForFragment rc initial)) = (Inl e, mex'')"
  then show "recvNextFragment recv cs rc initial =
        ((None, Some (case r_err rc of None \<Rightarrow> e | Some e0 \<Rightarrow> e0)),
         rc\<lparr>r_mex := mex'',
            r_err := Some (case r_err rc of None \<Rightarrow> e | Some e0 \<Rightarrow> e0),
            r_calls := r_calls rc @
              [CallRecvPeerFrameOfType (messageType (r_messageForFragment rc initial))] @
              (case r_err rc of None \<Rightarrow> [CallShutdown] | Some e0 \<Rightarrow> [])\<rparr>)"
    by (simp add: recvNextFragment_def r_failed_def Let_def
        split: option.splits prod.splits)
qed

theorem recvNextFragment_cache_then_exchange_witness:
  "r_initialFragment example_reader_cached = Some example_readable
 \<and> r_initialFragment example_reader_queued = None
 \<and> recv_queue (r_mex example_reader_queued)
       (messageType (r_messageForFragment example_reader_queued True))
     = (Inr example_frame, example_mex)
 \<and> r_initialFragment example_reader = None
 \<and> recv_queue (r_mex example_reader) (messageType (r_messageForFragment example_reader True))
     = (Inl ContextDeadlineExceeded, example_mex)
 \<and> recvNextFragment recv_queue example_ChecksumSize example_reader_cached True
     = ((Some example_readable, None), example_reader)
 \<and> recvNextFragment recv_queue example_ChecksumSize example_reader_queued True
     = ((Some example_readable, None),
        example_reader\<lparr>r_calls := [CallRecvPeerFrameOfType 3]\<rparr>)
 \<and> recvNextFragment recv_queue example_ChecksumSize example_reader True
     = ((None, Some ContextDeadlineExceeded),
        example_reader\<lparr>r_err := Some ContextDeadlineExceeded,
          r_calls := [CallRecvPeerFrameOfType 3, CallShutdown]\<rparr>)"
proof -
  have h1: "r_initialFragment example_reader_cached = Some example_readable"
    by (simp add: example_reader_cached_def)
  have h2: "r_initialFragment example_reader_queued = None
    \<and> recv_queue (r_mex example_reader_queued)
       (messageType (r_messageForFragment example_reader_queued True))
     = (Inr example_frame, example_mex)"
    by (simp add: example_reader_queued_def example_reader_def recv_queue_def
        example_mex_def example_frame_def example_messageForFragment_def bytes_message_def)
  have h3: "r_initialFragment example_reader = None
    \<and> recv_queue (r_mex example_reader) (messageType (r_messageForFragment example_reader True))
     = (Inl ContextDeadlineExceeded, example_mex)"
    by (simp add: example_reader_def recv_queue_def example_mex_def)
  have m: "messageType (example_messageForFragment True) = 3"
    by (simp add: example_messageForFragment_def bytes_message_def)
  have e0: "example_reader\<lparr>r_initialFragment := None\<rparr> = example_reader"
    by (simp add: example_reader_def)
  note t = recvNextFragment_cache_then_exchange [of example_reader_cached example_readable
      recv_queue example_ChecksumSize True example_reader_queued example_reader_queued
      example_frame example_mex example_reader ContextDeadlineExceeded example_mex]
  have a: "recvNextFragment recv_queue example_ChecksumSize example_reader_cached True
     = ((Some example_readable, None), example_reader)"
    using t [THEN conjunct1] h1 e0 by (simp add: example_reader_cached_def)
  have b: "recvNextFragment recv_queue example_ChecksumSize example_reader_queued True
     = ((Some example_readable, None),
        example_reader\<lparr>r_calls := [CallRecvPeerFrameOfType 3]\<rparr>)"
    using t [THEN conjunct2, THEN conjunct2, THEN conjunct1] h2
    by (simp add: example_reader_queued_def example_reader_def example_parse m)
  have c: "recvNextFragment recv_queue example_ChecksumSize example_reader True
     = ((None, Some ContextDeadlineExceeded),
        example_reader\<lparr>r_err := Some ContextDeadlineExceeded,
          r_calls := [CallRecvPeerFrameOfType 3, CallShutdown]\<rparr>)"
    using t [THEN conjunct2, THEN conjunct2, THEN conjunct2] h3
    by (simp add: example_reader_def m)
  from h1 h2 h3 a b c show ?thesis by blast
qed

text \<open>
  Claim C10. With a cached initial fragment, \<^verbatim>\<open>recvNextFragment\<close> returns it whatever the
  caller asked for: the result is the same for \<open>initial = True\<close> and \<open>initial = False\<close>, for
  any message selection function, any exchange behaviour and any checksum table, and the
  exchange is not called. The \<open>initial\<close> parameter and the message type are used when the
  cache is empty: the first call logged is then the receive for the message type of
  \<^verbatim>\<open>messageForFragment(initial)\<close>.
\<close>

theorem recvNextFragment_cached_ignores_request:
  assumes "r_initialFragment r = Some f"
  shows "recvNextFragment recv cs (r\<lparr>r_messageForFragment := mff\<rparr>) initial
           = ((Some f, None), r\<lparr>r_messageForFragment := mff, r_initialFragment := None\<rparr>)
       \<and> recvNextFragment recv cs r True = recvNextFragment recv' cs' r False
       \<and> r_calls (snd (recvNextFragment recv cs r initial)) = r_calls r
       \<and> r_mex (snd (recvNextFragment recv cs r initial)) = r_mex r
       \<and> take (Suc (length (r_calls r)))
            (r_calls (snd (recvNextFragment recv cs (r\<lparr>r_initialFragment := None\<rparr>) initial)))
           = r_calls r @ [CallRecvPeerFrameOfType (messageType (r_messageForFragment r initial))]"
  using assms
  by (simp add: recvNextFragment_def r_failed_def Let_def split: option.splits prod.splits sum.splits)

theorem recvNextFragment_cached_ignores_request_witness:
  "r_initialFragment example_reader_cached = Some example_readable
 \<and> recvNextFragment recv_queue example_ChecksumSize example_reader_cached True
     = ((Some example_readable, None), example_reader)
 \<and> recvNextFragment recv_queue example_ChecksumSize example_reader_cached False
     = ((Some example_readable, None), example_reader)"
proof -
  have h1: "r_initialFragment example_reader_cached = Some example_readable"
    by (simp add: example_reader_cached_def)
  have e0: "example_reader_cached\<lparr>r_messageForFragment := example_messageForFragment\<rparr>
      = example_reader_cached"
    "example_reader_cached\<lparr>r_initialFragment := None\<rparr> = example_reader"
    by (simp_all add: example_reader_cached_def example_reader_def)
  note t = recvNextFragment_cached_ignores_request [OF h1, of recv_queue example_ChecksumSize
      example_messageForFragment _ recv_queue example_ChecksumSize]
  note a = t [THEN conjunct1, unfolded e0]
  from h1 a [of True] a [of False] show ?thesis by blast
qed

subsection \<open>Flushing a fragment\<close>

text \<open>
  Claim C3, as stated, fails when the cancellation signal has fired and the send channel has
  room: both communications of the \<^verbatim>\<open>select\<close> can proceed, Go picks either, and when it picks
  the send the flush succeeds and the frame is on the channel.
\<close>

theorem flushFragment_cancelled_counterexample:
  "ctx (w_mex example_writer_cancelled) = Some ContextCanceled
 \<and> w_err example_writer_cancelled = None
 \<and> fst (flushFragment PickSend example_writer_cancelled example_fragment) = None
 \<and> sendCh (w_conn (fst (snd (flushFragment PickSend example_writer_cancelled
       example_fragment)))) = [example_flushed_frame]"
  by (simp add: example_writer_cancelled_def example_writer1_eq example_writer_def
      flushFragment_def example_fragment_eq example_flushed_frame_def wf_Frame_def
      SetPayloadSize_def BytesWritten_def Let_def)

text \<open>
  Claim C3, amended. A flush on a writer that holds no error ends, without waiting and
  without a second attempt, in one of three outcomes. With the signal not fired it succeeds
  if the send channel can take the frame and fails with \<^verbatim>\<open>ErrSendBufferFull\<close> if it cannot.
  With the signal fired it fails with the context's error if the channel cannot take the
  frame; if the channel can, it either fails with the context's error or succeeds, as the
  \<^verbatim>\<open>select\<close> picks. A success puts the frame, with its payload size set, on the send channel
  once and changes nothing else; a failure latches the error and calls shutdown once.
\<close>

theorem flushFragment_outcomes:
  assumes "w_err w = None"
  shows "fst (flushFragment pick w fragment) =
           (case ctx (w_mex w) of
              None \<Rightarrow> if length (sendCh (w_conn w)) < sendCap (w_conn w) then None
                       else Some ErrSendBufferFull
            | Some e \<Rightarrow> if length (sendCh (w_conn w)) < sendCap (w_conn w) \<and> pick = PickSend
                        then None else Some e)
       \<and> fst (snd (flushFragment pick w fragment)) =
           (case fst (flushFragment pick w fragment) of
              None \<Rightarrow> w\<lparr>w_conn := (w_conn w)\<lparr>sendCh := sendCh (w_conn w) @
                  [\<lparr>Header = (Header (wf_frame fragment))
                       \<lparr>payloadSize := word_of_nat (BytesWritten (wf_contents fragment))\<rparr>,
                    Payload = buffer (wf_contents fragment)\<rparr>]\<rparr>\<rparr>
            | Some e \<Rightarrow> w\<lparr>w_err := Some e, w_calls := w_calls w @ [CallShutdown]\<rparr>)"
  using assms
  by (simp add: flushFragment_def w_failed_def wf_Frame_def SetPayloadSize_def Let_def
      split: option.splits)

theorem flushFragment_outcomes_witness:
  "w_err example_writer_cancelled = None \<and> w_err example_writer_stalled = None
 \<and> w_err example_writer1 = None
 \<and> fst (flushFragment PickDone example_writer_cancelled example_fragment)
      = Some ContextCanceled
 \<and> fst (flushFragment PickSend example_writer_cancelled example_fragment) = None
 \<and> fst (flushFragment PickSend example_writer_stalled example_fragment)
      = Some ErrSendBufferFull
 \<and> fst (flushFragment PickDone example_writer1 example_fragment) = None
 \<and> sendCh (w_conn (fst (snd (flushFragment PickDone example_writer1 example_fragment))))
      = [example_flushed_frame]
 \<and> w_calls (fst (snd (flushFragment PickSend example_writer_stalled example_fragment)))
      = [CallArgWriter False, CallShutdown]"
proof -
  have h1: "w_err example_writer_cancelled = None"
    by (simp add: example_writer_cancelled_def example_writer1_eq example_writer_def)
  have h2: "w_err example_writer_stalled = None"
    by (simp add: example_writer_stalled_def example_writer1_eq example_writer_def)
  have h3: "w_err example_writer1 = None"
    by (simp add: example_writer1_eq example_writer_def)
  have a: "fst (flushFragment PickDone example_writer_cancelled example_fragment)
      = Some ContextCanceled"
    using flushFragment_outcomes [OF h1, of PickDone example_fragment]
    by (simp add: example_writer_cancelled_def)
  have b: "fst (flushFragment PickSend example_writer_cancelled example_fragment) = None"
    using flushFragment_outcomes [OF h1, of PickSend example_fragment]
    by (simp add: example_writer_cancelled_def example_writer1_eq example_writer_def)
  have c: "fst (flushFragment PickSend example_writer_stalled example_fragment)
      = Some ErrSendBufferFull
    \<and> w_calls (fst (snd (flushFragment PickSend example_writer_stalled example_fragment)))
      = [CallArgWriter False, CallShutdown]"
    using flushFragment_outcomes [OF h2, of PickSend example_fragment]
    by (simp add: example_writer_stalled_def example_writer1_eq example_writer_def
        example_mex_def)
  have d: "fst (flushFragment PickDone example_writer1 example_fragment) = None
    \<and> sendCh (w_conn (fst (snd (flushFragment PickDone example_writer1 example_fragment))))
      = [example_flushed_frame]"
    using flushFragment_outcomes [OF h3, of PickDone example_fragment]
    by (simp add: example_writer1_eq example_writer_def example_mex_def
        example_fragment_eq example_flushed_frame_def BytesWritten_def)
  from h1 h2 h3 a b c d show ?thesis by blast
qed

subsection \<open>The layout of a fragment's payload\<close>

lemma WriteBytes_fits:
  assumes "wb_err w = None" and "pos w + length bs \<le> length (buffer w)"
  shows "WriteBytes bs w = w\<lparr>pos := pos w + length bs, buffer := splice (pos w) bs (buffer w)\<rparr>"
  using assms by (simp add: WriteBytes_def reserve_def)

lemma DeferBytes_fits:
  assumes "wb_err w = None" and "pos w + n \<le> length (buffer w)"
  shows "DeferBytes n w =
    (Some (pos w, n), w\<lparr>pos := pos w + n, buffer := splice (pos w) (replicate n 0) (buffer w)\<rparr>)"
  using assms by (simp add: DeferBytes_def reserve_def)

lemma DeferByte_fits:
  assumes "wb_err w = None" and "pos w + 1 \<le> length (buffer w)"
  shows "DeferByte w =
    (Some (pos w), w\<lparr>pos := pos w + 1, buffer := splice (pos w) [0] (buffer w)\<rparr>)"
  using assms DeferBytes_fits [of w 1] by (simp add: DeferByte_def)

lemma newFragment_layout:
  assumes msg: "msg_write (w_messageForFragment w initial)
                  (snd (DeferByte (NewWriteBuffer (Payload pooled))))
                = (None, WriteBytes hdr (snd (DeferByte (NewWriteBuffer (Payload pooled)))))"
    and fits: "length hdr + Size checksum + 2 \<le> length (Payload pooled)"
  shows "newFragment pooled w initial checksum =
    (Some \<lparr>wf_frame = pooled\<lparr>Header := (Header pooled)\<lparr>ID := msgID (w_mex w),
               hdr_messageType := messageType (w_messageForFragment w initial)\<rparr>\<rparr>,
           wf_flagsRef = Some 0,
           wf_checksumRef = Some (length hdr + 2, Size checksum),
           wf_checksum = checksum,
           wf_contents = \<lparr>buffer = [0] @ hdr @ [TypeCode checksum] @ replicate (Size checksum) 0
                             @ drop (length hdr + Size checksum + 2) (Payload pooled),
                          pos = length hdr + Size checksum + 2, wb_err = None\<rparr>\<rparr>, None)"
  using msg fits unfolding newFragment_def
  by (simp add: Let_def DeferByte_fits DeferBytes_fits WriteBytes_fits WriteByte_def
      NewWriteBuffer_def Err_def splice_def add.commute)

lemma fill_fragment_layout:
  assumes f: "wf_flagsRef f = Some 0" "wf_checksumRef f = Some (length hdr + 2, n)"
    and c: "wf_contents f = \<lparr>buffer = [0] @ hdr @ [tc] @ replicate n 0 @ rest,
                              pos = length hdr + n + 2, wb_err = None\<rparr>"
    and fits: "length args \<le> length rest" and len: "length csum = n"
  shows "written (wf_contents (fill_fragment flag args csum f))
           = [flag] @ hdr @ [tc] @ csum @ args
       \<and> BytesWritten (wf_contents (fill_fragment flag args csum f))
           = length hdr + n + 2 + length args
       \<and> Err (wf_contents (fill_fragment flag args csum f)) = None"
  using assms
  by (simp add: fill_fragment_def written_def BytesWritten_def Err_def WriteBytes_fits
      ByteRef_Update_def BytesRef_Update_def splice_def)

lemma parseInboundFragment_layout:
  assumes rd: "msg_read message \<lparr>remaining = hdr @ [ctype] @ csum @ args, rb_err = None\<rparr>
                 = (None, \<lparr>remaining = [ctype] @ csum @ args, rb_err = None\<rparr>)"
    and sz: "SizedPayload frame = [flag] @ hdr @ [ctype] @ csum @ args"
    and len: "length csum = ChecksumSize ctype"
  shows "parseInboundFragment ChecksumSize frame message =
           (Some \<lparr>rf_flags = flag, rf_checksumType = ctype, rf_checksum = csum,
                  rf_contents = \<lparr>remaining = args, rb_err = None\<rparr>\<rparr>, None)"
  using assms
  by (simp add: parseInboundFragment_def NewReadBuffer_def ReadByte_def ReadBytes_def
      RErr_def Let_def)

text \<open>
  Claim C1, as stated, fails. The example fragment, built by \<^verbatim>\<open>newFragment\<close> for a message
  with the fields AA BB and a four-byte checksum of type 1 and then filled with the flag 1,
  the argument bytes 10 20 and the checksum 9 8 7 6, has the flag byte first and the
  argument bytes last; the order of the claim would put the message fields first and the
  checksum last. \<^verbatim>\<open>parseInboundFragment\<close> on a frame laid out in the order of the claim takes
  the first message byte for the flag and an argument byte for the checksum type.
\<close>

theorem fragment_payload_layout_counterexample:
  "written (wf_contents (fill_fragment 1 [0x10, 0x20] [9, 8, 7, 6] example_fragment))
     = [1, 0xAA, 0xBB, 1, 9, 8, 7, 6, 0x10, 0x20]
 \<and> spec_layout [0xAA, 0xBB] 1 [0x10, 0x20] 1 [9, 8, 7, 6]
     = [0xAA, 0xBB, 1, 0x10, 0x20, 1, 9, 8, 7, 6]
 \<and> written (wf_contents (fill_fragment 1 [0x10, 0x20] [9, 8, 7, 6] example_fragment))
     \<noteq> spec_layout [0xAA, 0xBB] 1 [0x10, 0x20] 1 [9, 8, 7, 6]
 \<and> parseInboundFragment example_ChecksumSize example_spec_frame
       (example_messageForFragment True)
     = (Some \<lparr>rf_flags = 0xAA, rf_checksumType = 0x10, rf_checksum = [0x20, 1, 9, 8],
              rf_contents = \<lparr>remaining = [7, 6], rb_err = None\<rparr>\<rparr>, None)"
  by (simp add: example_fragment_eq fill_fragment_def written_def BytesWritten_def
      WriteBytes_def reserve_def ByteRef_Update_def BytesRef_Update_def splice_def
      spec_layout_def example_spec_frame_def parseInboundFragment_def
      example_messageForFragment_def bytes_message_def example_ChecksumSize_def
      SizedPayload_def NewReadBuffer_def ReadByte_def ReadBytes_def RErr_def Let_def)

text \<open>
  Claim C1, amended. The payload of a fragment is laid out in this order: one flag byte, the
  message header fields, one checksum-type byte, as many bytes of checksum value as the
  checksum's digest size, and then the argument payload bytes of the fragment. For the
  writer: when the message writes the fields \<open>hdr\<close> and the payload array has room,
  \<^verbatim>\<open>newFragment\<close> succeeds, the flag slot is at offset 0, the checksum slot follows the
  checksum-type byte, both slots are zeroed, and the write cursor is left after the checksum
  slot, so that the filled fragment reads flag, fields, type, checksum, arguments. For the
  reader: on a sized payload of that form, with a message that reads the fields and a
  checksum of the size of its type, \<^verbatim>\<open>parseInboundFragment\<close> returns the flag, the type and
  the checksum, with the read cursor at the argument bytes.
\<close>

theorem fragment_payload_layout:
  assumes msg: "msg_write (w_messageForFragment w initial)
                  (snd (DeferByte (NewWriteBuffer (Payload pooled))))
                = (None, WriteBytes hdr (snd (DeferByte (NewWriteBuffer (Payload pooled)))))"
    and fits: "length hdr + Size checksum + 2 + length args \<le> length (Payload pooled)"
    and len: "length csum = Size checksum"
    and rd: "msg_read message \<lparr>remaining = hdr' @ [ctype] @ csum' @ args', rb_err = None\<rparr>
                 = (None, \<lparr>remaining = [ctype] @ csum' @ args', rb_err = None\<rparr>)"
    and sz: "SizedPayload frame = [flag'] @ hdr' @ [ctype] @ csum' @ args'"
    and len': "length csum' = ChecksumSize ctype"
  shows "(\<exists>f. newFragment pooled w initial checksum = (Some f, None)
            \<and> wf_flagsRef f = Some 0
            \<and> wf_checksumRef f = Some (length hdr + 2, Size checksum)
            \<and> written (wf_contents f)
                = [0] @ hdr @ [TypeCode checksum] @ replicate (Size checksum) 0
            \<and> written (wf_contents (fill_fragment flag args csum f))
                = [flag] @ hdr @ [TypeCode checksum] @ csum @ args)
       \<and> parseInboundFragment ChecksumSize frame message =
           (Some \<lparr>rf_flags = flag', rf_checksumType = ctype, rf_checksum = csum',
                  rf_contents = \<lparr>remaining = args', rb_err = None\<rparr>\<rparr>, None)"
proof -
  from fits have fits': "length hdr + Size checksum + 2 \<le> length (Payload pooled)" by simp
  let ?f = "\<lparr>wf_frame = pooled\<lparr>Header := (Header pooled)\<lparr>ID := msgID (w_mex w),
               hdr_messageType := messageType (w_messageForFragment w initial)\<rparr>\<rparr>,
           wf_flagsRef = Some 0,
           wf_checksumRef = Some (length hdr + 2, Size checksum),
           wf_checksum = checksum,
           wf_contents = \<lparr>buffer = [0] @ hdr @ [TypeCode checksum] @ replicate (Size checksum) 0
                             @ drop (length hdr + Size checksum + 2) (Payload pooled),
                          pos = length hdr + Size checksum + 2, wb_err = None\<rparr>\<rparr>"
  have n: "newFragment pooled w initial checksum = (Some ?f, None)"
    by (rule newFragment_layout [OF msg fits'])
  have w: "written (wf_contents ?f)
      = [0] @ hdr @ [TypeCode checksum] @ replicate (Size checksum) 0"
    by (simp add: written_def BytesWritten_def)
  have "length args \<le> length (drop (length hdr + Size checksum + 2) (Payload pooled))"
    using fits by simp
  from fill_fragment_layout [of ?f hdr "Size checksum" "TypeCode checksum"
      "drop (length hdr + Size checksum + 2) (Payload pooled)" args csum flag, OF _ _ _ this len]
  have g: "written (wf_contents (fill_fragment flag args csum ?f))
      = [flag] @ hdr @ [TypeCode checksum] @ csum @ args"
    by simp
  have "\<exists>f. newFragment pooled w initial checksum = (Some f, None)
            \<and> wf_flagsRef f = Some 0
            \<and> wf_checksumRef f = Some (length hdr + 2, Size checksum)
            \<and> written (wf_contents f)
                = [0] @ hdr @ [TypeCode checksum] @ replicate (Size checksum) 0
            \<and> written (wf_contents (fill_fragment flag args csum f))
                = [flag] @ hdr @ [TypeCode checksum] @ csum @ args"
    using n w g by (intro exI [of _ ?f]) simp
  with parseInboundFragment_layout [where ChecksumSize = ChecksumSize and ctype = ctype
      and message = message and frame = frame and hdr = hdr' and csum = csum'
      and args = args' and flag = flag', OF rd sz len']
  show ?thesis by blast
qed

theorem fragment_payload_layout_witness:
  "msg_write (w_messageForFragment example_writer True)
       (snd (DeferByte (NewWriteBuffer (Payload example_pooled))))
     = (None, WriteBytes [0xAA, 0xBB]
                (snd (DeferByte (NewWriteBuffer (Payload example_pooled)))))
 \<and> length [0xAA, 0xBB :: byte] + Size example_checksum + 2 + length [0x10, 0x20 :: byte]
       \<le> length (Payload example_pooled)
 \<and> length [9, 8, 7, 6 :: byte] = Size example_checksum
 \<and> msg_read (example_messageForFragment True)
       \<lparr>remaining = [0xAA, 0xBB] @ [1] @ [9, 8, 7, 6] @ [0x10, 0x20], rb_err = None\<rparr>
     = (None, \<lparr>remaining = [1] @ [9, 8, 7, 6] @ [0x10, 0x20], rb_err = None\<rparr>)
 \<and> SizedPayload example_frame = [0] @ [0xAA, 0xBB] @ [1] @ [9, 8, 7, 6] @ [0x10, 0x20]
 \<and> length [9, 8, 7, 6 :: byte] = example_ChecksumSize 1
 \<and> newFragment example_pooled example_writer True example_checksum
     = (Some example_fragment, None)
 \<and> written (wf_contents (fill_fragment 1 [0x10, 0x20] [9, 8, 7, 6] example_fragment))
     = [1, 0xAA, 0xBB, 1, 9, 8, 7, 6, 0x10, 0x20]
 \<and> parseInboundFragment example_ChecksumSize example_frame (example_messageForFragment True)
     = (Some example_readable, None)"
proof -
  have h1: "msg_write (w_messageForFragment example_writer True)
       (snd (DeferByte (NewWriteBuffer (Payload example_pooled))))
     = (None, WriteBytes [0xAA, 0xBB]
                (snd (DeferByte (NewWriteBuffer (Payload example_pooled)))))"
    by (simp add: example_writer_def example_messageForFragment_def bytes_message_def
        example_pooled_def NewWriteBuffer_def DeferByte_def DeferBytes_def reserve_def
        WriteBytes_def Err_def splice_def)
  have h2: "length [0xAA, 0xBB :: byte] + Size example_checksum + 2
       + length [0x10, 0x20 :: byte] \<le> length (Payload example_pooled)"
    by (simp add: example_checksum_def example_pooled_def)
  have h3: "length [9, 8, 7, 6 :: byte] = Size example_checksum"
    by (simp add: example_checksum_def)
  have h4: "msg_read (example_messageForFragment True)
       \<lparr>remaining = [0xAA, 0xBB] @ [1] @ [9, 8, 7, 6] @ [0x10, 0x20], rb_err = None\<rparr>
     = (None, \<lparr>remaining = [1] @ [9, 8, 7, 6] @ [0x10, 0x20], rb_err = None\<rparr>)"
    by (simp add: example_messageForFragment_def bytes_message_def ReadBytes_def RErr_def)
  have h5: "SizedPayload example_frame
      = [0] @ [0xAA, 0xBB] @ [1] @ [9, 8, 7, 6] @ [0x10, 0x20]"
    by (simp add: SizedPayload_def example_frame_def)
  have h6: "length [9, 8, 7, 6 :: byte] = example_ChecksumSize 1"
    by (simp add: example_ChecksumSize_def)
  note t = fragment_payload_layout [where flag = 1 and flag' = 0
      and ChecksumSize = example_ChecksumSize, OF h1 h2 h3 h4 h5 h6]
  from t [THEN conjunct1]
  have a: "newFragment example_pooled example_writer True example_checksum
       = (Some example_fragment, None)
     \<and> written (wf_contents (fill_fragment 1 [0x10, 0x20] [9, 8, 7, 6] example_fragment))
       = [1, 0xAA, 0xBB, 1, 9, 8, 7, 6, 0x10, 0x20]"
    by (auto simp: example_fragment_def example_checksum_def)
  from t [THEN conjunct2]
  have b: "parseInboundFragment example_ChecksumSize example_frame
        (example_messageForFragment True) = (Some example_readable, None)"
    by (simp add: example_readable_def)
  from h1 h2 h3 h4 h5 h6 a b show ?thesis by blast
qed

subsection \<open>Arguments across the transport\<close>









end
